theory Spec2Isabelle
  imports Complex_Main "HOL-Library.AList" "HOL-Library.Sublist"
begin

section \<open>The trading runtime: data model\<close>

text \<open>
  A shallow embedding of \<^verbatim>\<open>src/trader/trading/trading_runtime.py\<close> (class \<^verbatim>\<open>Trader\<close>).
  Python objects are records, the session object \<^verbatim>\<open>self\<close> is a record that every method
  takes and returns, exceptions are values of the type \<open>exn\<close>, and every call that leaves
  the class (gateway, streams, ledgers, catalog store) is recorded in \<open>calls\<close>, in program
  order. The attribute \<^verbatim>\<open>self.client\<close> is declared \<^verbatim>\<open>IBAIORx\<close>: the model is of a session
  whose client object exists. Coroutines run one after the other: an \<^verbatim>\<open>await\<close> is a call.
  Floats are exact rationals.
\<close>

datatype exn =
    ConnectionError
  | ConnectionRefusedError
  | AttributeError
  | ZeroDivisionError
  | OtherException string

datatype Action = BUY | SELL

fun str_Action :: "Action \<Rightarrow> string" where
  "str_Action BUY = ''BUY''"
| "str_Action SELL = ''SELL''"

record Contract =
  conId :: int
  symbol :: string
  exchange :: string

record ContractDetails =
  cd_contract :: Contract
  longName :: string

record SecurityDefinition =
  sd_conId :: int
  sd_symbol :: string
  sd_longName :: string

record PortfolioItem =
  contract :: Contract
  position :: int
  account :: string

record Position =
  pos_account :: string
  pos_contract :: Contract
  pos_position :: int

record Order =
  orderId :: int
  clientId :: int
  action :: string
  totalQuantity :: int
  lmtPrice :: rat

record Trade =
  trade_contract :: Contract
  order :: Order

record Ticker =
  tick_contract :: Contract
  bid :: rat

text \<open>What a stream delivers to an observer: a value, an error, or its completion.\<close>

datatype 'a notification = OnNext 'a | OnError exn | OnCompleted

text \<open>The observer \<^verbatim>\<open>temp_place_order\<close> returns: bound to the trade stream of the order placed.\<close>

datatype trade_observer = TradeObserver Contract Order

text \<open>
  \<^verbatim>\<open>SecurityDataStream(security=..., bar_size='1 min', date_range=..., existing_data=None)\<close>:
  the date range is the trailing \<open>days\<close> days ending now.
\<close>

record SecurityDataStream =
  security :: "SecurityDefinition option"
  bar_size :: string
  days :: nat

text \<open>The calls that leave the class, as \<open>calls\<close> records them.\<close>

datatype call =
    BookSubscribeToEventkitEvent
  | SubscribePositions
  | PositionsSubscribeAsync
  | SubscribePortfolio
  | PortfolioSubscribeAsync
  | IbPortfolio
  | ReqMarketDataType int
  | ReqAllOpenOrdersAsync
  | BookAsend Trade
  | GetContractDetails Contract
  | UniverseAccessorGetAll
  | UniverseAccessorGet
  | UniverseAccessorUpdate "SecurityDefinition list"
  | NewSecurityDataStream "SecurityDefinition option"
  | SubscribeContractHistory Contract
  | IbCancelOrder Order
  | ClientConnect
  | SubscribeContract Contract
  | TicksSubscribeAsync
  | SubscribePlaceOrder Contract Order

datatype log_entry =
    LogDebug string
  | LogInfo string
  | LogError string
  | LogException exn

text \<open>
  Modelled from the spec: the classes \<^verbatim>\<open>Book\<close> and \<^verbatim>\<open>Portfolio\<close> are not in the sources. The spec
  has the Book as the known orders keyed by order id, fed with trades and attached to the
  order events, and the Portfolio as a ledger with at most one record per account and
  instrument.
\<close>

record Book =
  orders :: "(int \<times> Order) list"
  subscribed :: nat

record Portfolio =
  positions :: "Position list"
  portfolio_items :: "PortfolioItem list"

text \<open>
  The session. \<open>portfolio_universe\<close> is the universe the catalog store holds under the name
  \<^verbatim>\<open>'portfolio'\<close>; \<open>market_data_subscriptions\<close> is the dict of the same name, in insertion order
  (a key is \<open>None\<close> when \<^verbatim>\<open>find_contract\<close> found nothing); the observer counts are those of the
  client's position and portfolio subjects.
\<close>

record Trader =
  client_id_counter :: int
  market_data :: int
  contract_subscriptions :: "Contract list"
  market_data_subscriptions :: "(SecurityDefinition option \<times> SecurityDataStream) list"
  book :: Book
  portfolio :: Portfolio
  portfolio_universe :: "SecurityDefinition list"
  positions_observers :: nat
  portfolio_observers :: nat
  calls :: "call list"
  logs :: "log_entry list"

text \<open>
  The collaborators of a run: which calls raise, what the gateway answers, what the price
  stream of a contract delivers and how much of it before the waiter asks, how the
  \<open>k\<close>-th connection attempt ends and how many seconds have passed when it starts.
  \<^verbatim>\<open>SecurityDefinition.from_contract_details\<close> is not in the sources: a parameter too.
\<close>

record env =
  raises :: "call \<Rightarrow> exn option"
  isConnected :: bool
  ib_portfolio :: "PortfolioItem list"
  contract_details :: "Contract \<Rightarrow> ContractDetails list"
  from_contract_details :: "ContractDetails \<Rightarrow> SecurityDefinition"
  open_orders :: "Trade list"
  cancelled :: "Order \<Rightarrow> Trade option"
  ticks :: "Contract \<Rightarrow> Ticker notification list"
  delivered :: nat
  connect_outcome :: "nat \<Rightarrow> exn option"
  elapsed :: "nat \<Rightarrow> nat"
  new_client_id :: int

section \<open>Programs over the session\<close>

type_synonym 'a prog = "Trader \<Rightarrow> (exn + 'a) \<times> Trader"

definition ret :: "'a \<Rightarrow> 'a prog" where
  "ret x s = (Inr x, s)"

definition bnd :: "'a prog \<Rightarrow> ('a \<Rightarrow> 'b prog) \<Rightarrow> 'b prog" where
  "bnd m f s = (case m s of (Inl e, s') \<Rightarrow> (Inl e, s') | (Inr x, s') \<Rightarrow> f x s')"

definition modify :: "(Trader \<Rightarrow> Trader) \<Rightarrow> unit prog" where
  "modify f s = (Inr (), f s)"

text \<open>A call that leaves the class: recorded, then it raises or returns.\<close>

definition perform :: "env \<Rightarrow> call \<Rightarrow> unit prog" where
  "perform E c s =
     (let s' = s\<lparr>calls := calls s @ [c]\<rparr>
      in case raises E c of Some e \<Rightarrow> (Inl e, s') | None \<Rightarrow> (Inr (), s'))"

definition logging :: "log_entry \<Rightarrow> unit prog" where
  "logging l s = (Inr (), s\<lparr>logs := logs s @ [l]\<rparr>)"

section \<open>Helpers that are not in the sources\<close>

text \<open>
  Modelled from the spec: \<^verbatim>\<open>ListHelper.isin(list, predicate)\<close> is not in the sources. The spec has
  the membership checks as scans matched by stable key; the scan stops at the first element
  the predicate accepts. A predicate can raise (\<^verbatim>\<open>subscription.conId\<close> on a \<open>None\<close> key).
\<close>

fun isin :: "'a list \<Rightarrow> ('a \<Rightarrow> exn + bool) \<Rightarrow> exn + bool" where
  "isin [] f = Inr False"
| "isin (x # xs) f =
     (case f x of Inl e \<Rightarrow> Inl e | Inr True \<Rightarrow> Inr True | Inr False \<Rightarrow> isin xs f)"

text \<open>
  Modelled from the spec: \<^verbatim>\<open>Universe.find_contract\<close> is not in the sources. The source casts its
  result to \<^verbatim>\<open>SecurityDefinition\<close>, so it is optional; the match is by stable key.
\<close>

definition find_contract :: "SecurityDefinition list \<Rightarrow> Contract \<Rightarrow> SecurityDefinition option" where
  "find_contract security_definitions c = find (\<lambda>d. sd_conId d = conId c) security_definitions"

text \<open>Modelled from the spec: \<^verbatim>\<open>Book.get_order\<close> and \<^verbatim>\<open>Book.asend\<close>; the Book is keyed by order id.\<close>

definition get_order :: "Book \<Rightarrow> int \<Rightarrow> Order option" where
  "get_order b order_id = map_of (orders b) order_id"

definition book_add :: "Trade \<Rightarrow> Book \<Rightarrow> Book" where
  "book_add t b = b\<lparr>orders := AList.update (orderId (order t)) (order t) (orders b)\<rparr>"

text \<open>
  Modelled from the spec: \<^verbatim>\<open>Portfolio.add_portfolio_item\<close> and \<^verbatim>\<open>Portfolio.add_position\<close>; at most
  one record per account and instrument, the newest.
\<close>

definition add_portfolio_item :: "PortfolioItem \<Rightarrow> Portfolio \<Rightarrow> Portfolio" where
  "add_portfolio_item p pf =
     pf\<lparr>portfolio_items :=
          filter (\<lambda>q. \<not> (account q = account p \<and> conId (contract q) = conId (contract p)))
            (portfolio_items pf) @ [p]\<rparr>"

definition add_position :: "Position \<Rightarrow> Portfolio \<Rightarrow> Portfolio" where
  "add_position p pf =
     pf\<lparr>positions :=
          filter (\<lambda>q. \<not> (pos_account q = pos_account p \<and> conId (pos_contract q) = conId (pos_contract p)))
            (positions pf) @ [p]\<rparr>"

text \<open>
  Modelled from the spec: \<^verbatim>\<open>AsyncCachedObserver\<close> is not in the sources. With
  \<^verbatim>\<open>capture_asend_exception=True\<close> an exception of the \<^verbatim>\<open>asend\<close> callback is handed to the
  \<^verbatim>\<open>athrow\<close> callback and goes no further.
\<close>

definition observer_asend :: "(exn \<Rightarrow> unit prog) \<Rightarrow> ('a \<Rightarrow> unit prog) \<Rightarrow> 'a \<Rightarrow> unit prog" where
  "observer_asend athrow asend v s =
     (case asend v s of (Inl ex, s') \<Rightarrow> athrow ex s' | (Inr u, s') \<Rightarrow> (Inr u, s'))"

text \<open>
  Modelled from the spec: the observer remembers the latest value or error delivered;
  \<^verbatim>\<open>wait_value()\<close> returns at once what is remembered, and otherwise suspends until the next
  value (returned) or error (raised). \<open>None\<close>: the waiter is never resumed.
\<close>

fun cached :: "'a notification list \<Rightarrow> (exn + 'a) option \<Rightarrow> (exn + 'a) option" where
  "cached [] c = c"
| "cached (OnNext v # ns) c = cached ns (Some (Inr v))"
| "cached (OnError e # ns) c = cached ns (Some (Inl e))"
| "cached (OnCompleted # ns) c = cached ns c"

definition wait_value :: "nat \<Rightarrow> 'a notification list \<Rightarrow> (exn + 'a) option" where
  "wait_value n ns =
     (case cached (take n ns) None of
        Some r \<Rightarrow> Some r
      | None \<Rightarrow>
          (case drop n ns of
             OnNext v # _ \<Rightarrow> Some (Inr v)
           | OnError e # _ \<Rightarrow> Some (Inl e)
           | _ \<Rightarrow> None))"

text \<open>
  Modelled from the spec: \<^verbatim>\<open>Pipe[Ticker].take(n)\<close> bounds a stream to \<open>n\<close> values and completes it
  after the last of them; an error or a completion that comes earlier ends it.
\<close>

fun take_stream :: "nat \<Rightarrow> 'a notification list \<Rightarrow> 'a notification list" where
  "take_stream 0 ns = [OnCompleted]"
| "take_stream (Suc n) [] = []"
| "take_stream (Suc n) (OnNext v # ns) = OnNext v # take_stream n ns"
| "take_stream (Suc n) (OnError e # ns) = [OnError e]"
| "take_stream (Suc n) (OnCompleted # ns) = [OnCompleted]"

text \<open>The values a stream delivers.\<close>

fun stream_values :: "'a notification list \<Rightarrow> 'a list" where
  "stream_values [] = []"
| "stream_values (OnNext v # ns) = v # stream_values ns"
| "stream_values (n # ns) = stream_values ns"

text \<open>
  Python's \<^verbatim>\<open>round(x)\<close> and \<^verbatim>\<open>round(x, ndigits=2)\<close>: to the nearest, a tie to the even neighbour.
\<close>

definition py_round :: "rat \<Rightarrow> int" where
  "py_round x =
     (let f = \<lfloor>x\<rfloor>; d = x - of_int f
      in if d < 1 / 2 then f else if 1 / 2 < d then f + 1 else if even f then f else f + 1)"

definition py_round_ndigits :: "rat \<Rightarrow> nat \<Rightarrow> rat" where
  "py_round_ndigits x ndigits = of_int (py_round (x * 10 ^ ndigits)) / 10 ^ ndigits"

section \<open>Portfolio-universe reconciliation\<close>

text \<open>
  Lines 217 to 239 of \<^verbatim>\<open>update_portfolio_universe\<close>: the subscription check over the keys of
  \<^verbatim>\<open>market_data_subscriptions\<close> and the opening of the stream. \<^verbatim>\<open>subscription.conId\<close> raises
  \<^verbatim>\<open>AttributeError\<close> on a \<open>None\<close> key.
\<close>

definition subscribe_market_data :: "env \<Rightarrow> SecurityDefinition list \<Rightarrow> PortfolioItem \<Rightarrow> unit prog" where
  "subscribe_market_data E universe portfolio_item s =
     (case isin (map fst (market_data_subscriptions s))
             (\<lambda>subscription. case subscription of
                  None \<Rightarrow> Inl AttributeError
                | Some d \<Rightarrow> Inr (sd_conId d = conId (contract portfolio_item))) of
        Inl e \<Rightarrow> (Inl e, s)
      | Inr True \<Rightarrow> (Inr (), s)
      | Inr False \<Rightarrow>
          bnd (logging (LogDebug ''subscribing to market data stream for portfolio item {}'')) (\<lambda>_.
          let security = find_contract universe (contract portfolio_item);
              security_stream = \<lparr>security = security, bar_size = ''1 min'', days = 30\<rparr>
          in bnd (perform E (NewSecurityDataStream security)) (\<lambda>_.
             bnd (perform E (SubscribeContractHistory (contract portfolio_item))) (\<lambda>_.
             modify (\<lambda>s. s\<lparr>market_data_subscriptions :=
                               AList.update security security_stream (market_data_subscriptions s)\<rparr>)))) s)"

text \<open>
  \<^verbatim>\<open>update_portfolio_universe\<close>. \<^verbatim>\<open>if contract_details and len(contract_details) >= 1\<close> is the
  non-empty case; the universe is written back to the store either way.
\<close>

definition update_portfolio_universe :: "env \<Rightarrow> PortfolioItem \<Rightarrow> unit prog" where
  "update_portfolio_universe E portfolio_item =
     bnd (perform E UniverseAccessorGet) (\<lambda>_ s.
       let universe = portfolio_universe s
       in case isin universe (\<lambda>d. Inr (sd_conId d = conId (contract portfolio_item))) of
            Inl e \<Rightarrow> (Inl e, s)
          | Inr True \<Rightarrow> (Inr (), s)
          | Inr False \<Rightarrow>
              bnd (perform E (GetContractDetails (contract portfolio_item))) (\<lambda>_.
              let universe' =
                    (case contract_details E (contract portfolio_item) of
                       [] \<Rightarrow> universe
                     | d # _ \<Rightarrow> universe @ [from_contract_details E d])
              in bnd (logging (LogDebug ''updating portfolio universe with {}'')) (\<lambda>_.
                 bnd (perform E (UniverseAccessorUpdate universe')) (\<lambda>_.
                 bnd (modify (\<lambda>s. s\<lparr>portfolio_universe := universe'\<rparr>)) (\<lambda>_.
                 subscribe_market_data E universe' portfolio_item)))) s)"

text \<open>\<^verbatim>\<open>__update_portfolio\<close> and \<^verbatim>\<open>__update_positions\<close>, the callbacks of the two observers.\<close>

definition update_portfolio :: "env \<Rightarrow> PortfolioItem \<Rightarrow> unit prog" where
  "update_portfolio E portfolio_item =
     bnd (logging (LogDebug ''__update_portfolio'')) (\<lambda>_.
     bnd (modify (\<lambda>s. s\<lparr>portfolio := add_portfolio_item portfolio_item (portfolio s)\<rparr>)) (\<lambda>_.
     update_portfolio_universe E portfolio_item))"

definition update_positions :: "Position list \<Rightarrow> unit prog" where
  "update_positions ps =
     bnd (logging (LogDebug ''__update_positions'')) (\<lambda>_.
     modify (\<lambda>s. s\<lparr>portfolio := fold add_position ps (portfolio s)\<rparr>))"

section \<open>setup\_subscriptions\<close>

text \<open>
  The nested handler: it logs the exception and assigns \<^verbatim>\<open>error = True\<close>. Without a
  \<^verbatim>\<open>nonlocal\<close> declaration the assignment binds a variable of the handler's own frame, which
  is dropped when the handler returns.
\<close>

definition handle_subscription_exception :: "exn \<Rightarrow> unit prog" where
  "handle_subscription_exception ex =
     bnd (logging (LogException ex)) (\<lambda>_. let error = True in ret ())"

text \<open>A handler that is never told of anything, to compare with.\<close>

definition anoop :: "exn \<Rightarrow> unit prog" where
  "anoop ex = ret ()"

fun repeat :: "nat \<Rightarrow> unit prog \<Rightarrow> unit prog" where
  "repeat 0 m = ret ()"
| "repeat (Suc n) m = bnd m (\<lambda>_. repeat n m)"

text \<open>
  \<^verbatim>\<open>self.client.portfolio_subject.asend(p)\<close>: the item goes to every observer attached to the
  portfolio subject, each an \<^verbatim>\<open>AsyncCachedObserver(self.__update_portfolio, athrow=..., capture_asend_exception=True)\<close>.
\<close>

definition portfolio_subject_asend :: "(exn \<Rightarrow> unit prog) \<Rightarrow> env \<Rightarrow> PortfolioItem \<Rightarrow> unit prog" where
  "portfolio_subject_asend athrow E p s =
     repeat (portfolio_observers s) (observer_asend athrow (update_portfolio E) p) s"

text \<open>\<^verbatim>\<open>for p in self.client.ib.portfolio(): await self.client.portfolio_subject.asend(p)\<close>\<close>

fun asend_portfolio :: "(exn \<Rightarrow> unit prog) \<Rightarrow> env \<Rightarrow> PortfolioItem list \<Rightarrow> unit prog" where
  "asend_portfolio athrow E [] = ret ()"
| "asend_portfolio athrow E (p # ps) =
     bnd (portfolio_subject_asend athrow E p) (\<lambda>_. asend_portfolio athrow E ps)"

text \<open>\<^verbatim>\<open>for o in orders: await self.book.asend(o)\<close>\<close>

fun replay_orders :: "env \<Rightarrow> Trade list \<Rightarrow> unit prog" where
  "replay_orders E [] = ret ()"
| "replay_orders E (t # ts) =
     bnd (perform E (BookAsend t)) (\<lambda>_.
     bnd (modify (\<lambda>s. s\<lparr>book := book_add t (book s)\<rparr>)) (\<lambda>_.
     replay_orders E ts))"

text \<open>
  \<^verbatim>\<open>setup_subscriptions\<close>, with the handler the two observers get as a parameter. The result
  is the value the local \<^verbatim>\<open>error\<close> of \<^verbatim>\<open>setup_subscriptions\<close> has when the method returns (the
  method itself returns \<^verbatim>\<open>None\<close>). \<^verbatim>\<open>is_ib_connected\<close> is \<^verbatim>\<open>self.client.ib.isConnected()\<close>.
\<close>

definition is_ib_connected :: "env \<Rightarrow> bool" where
  "is_ib_connected E = isConnected E"

definition setup_subscriptions_with :: "(exn \<Rightarrow> unit prog) \<Rightarrow> env \<Rightarrow> bool prog" where
  "setup_subscriptions_with athrow E s =
     (if \<not> is_ib_connected E then (Inl ConnectionError, s)
      else
        (let error = False
         in bnd (perform E BookSubscribeToEventkitEvent) (\<lambda>_.
            bnd (modify (\<lambda>s. s\<lparr>book := (book s)\<lparr>subscribed := subscribed (book s) + 1\<rparr>\<rparr>)) (\<lambda>_.
            bnd (perform E SubscribePositions) (\<lambda>_.
            bnd (perform E PositionsSubscribeAsync) (\<lambda>_.
            bnd (modify (\<lambda>s. s\<lparr>positions_observers := positions_observers s + 1\<rparr>)) (\<lambda>_.
            bnd (perform E SubscribePortfolio) (\<lambda>_.
            bnd (perform E PortfolioSubscribeAsync) (\<lambda>_.
            bnd (modify (\<lambda>s. s\<lparr>portfolio_observers := portfolio_observers s + 1\<rparr>)) (\<lambda>_.
            bnd (perform E IbPortfolio) (\<lambda>_.
            bnd (asend_portfolio athrow E (ib_portfolio E)) (\<lambda>_.
            bnd (\<lambda>s. perform E (ReqMarketDataType (market_data s)) s) (\<lambda>_.
            bnd (perform E ReqAllOpenOrdersAsync) (\<lambda>_.
            bnd (replay_orders E (open_orders E)) (\<lambda>_.
            ret error)))))))))))))) s)"

definition setup_subscriptions :: "env \<Rightarrow> bool prog" where
  "setup_subscriptions E = setup_subscriptions_with handle_subscription_exception E"

definition connected_event :: "env \<Rightarrow> unit prog" where
  "connected_event E =
     bnd (logging (LogDebug ''connected_event'')) (\<lambda>_.
     bnd (setup_subscriptions E) (\<lambda>_. ret ()))"

section \<open>connect\<close>

definition clear_portfolio_universe :: "env \<Rightarrow> unit prog" where
  "clear_portfolio_universe E =
     bnd (logging (LogDebug ''clearing portfolio universe'')) (\<lambda>_.
     bnd (perform E UniverseAccessorGet) (\<lambda>_.
     bnd (perform E (UniverseAccessorUpdate [])) (\<lambda>_.
     modify (\<lambda>s. s\<lparr>portfolio_universe := []\<rparr>))))"

text \<open>
  The body of \<^verbatim>\<open>connect\<close>, for the attempt number \<open>k\<close>. \<^verbatim>\<open>self.client = IBAIORx(...)\<close> is a new
  client: its id comes from the collaborators and nobody observes its subjects yet.
  \<^verbatim>\<open>self.client.connect()\<close> ends as the collaborators say for this attempt.
\<close>

definition client_connect :: "env \<Rightarrow> nat \<Rightarrow> unit prog" where
  "client_connect E k s =
     (let s' = s\<lparr>calls := calls s @ [ClientConnect]\<rparr>
      in case connect_outcome E k of Some e \<Rightarrow> (Inl e, s') | None \<Rightarrow> (Inr (), s'))"

definition connect_body :: "env \<Rightarrow> nat \<Rightarrow> unit prog" where
  "connect_body E k =
     bnd (modify (\<lambda>s. s\<lparr>client_id_counter := new_client_id E,
                        positions_observers := 0, portfolio_observers := 0\<rparr>)) (\<lambda>_.
     bnd (perform E UniverseAccessorGetAll) (\<lambda>_.
     bnd (clear_portfolio_universe E) (\<lambda>_.
     bnd (modify (\<lambda>s. s\<lparr>contract_subscriptions := [], market_data_subscriptions := []\<rparr>)) (\<lambda>_.
     client_connect E k))))"

text \<open>
  Modelled from the spec: the retry loop behind the decorator
  \<^verbatim>\<open>@backoff.on_exception(backoff.expo, ConnectionRefusedError, max_tries=10, max_time=120)\<close>
  is the \<^verbatim>\<open>backoff\<close> library's and not in the sources. The spec has \<^verbatim>\<open>connect\<close> retried on a
  transient connection refusal, with a bounded attempt count and a bounded total elapsed
  time, every other failure going to the caller. So the body is called again after a
  \<^verbatim>\<open>ConnectionRefusedError\<close>, unless this was try number \<open>max_tries\<close> or \<open>max_time\<close> seconds had
  passed when the try began, and then the exception goes to the caller; any other exception
  goes to the caller at once. The exception class and the two bounds are the source's.
  \<open>tries\<close> counts the tries made so far; the waits between tries are part of the clock
  \<open>elapsed\<close>.
\<close>

definition max_tries :: nat where
  "max_tries = 10"

definition max_time :: nat where
  "max_time = 120"

function connect_from :: "env \<Rightarrow> nat \<Rightarrow> unit prog" where
  "connect_from E tries s =
     (case connect_body E (Suc tries) s of
        (Inr u, s') \<Rightarrow> (Inr u, s')
      | (Inl e, s') \<Rightarrow>
          if e = ConnectionRefusedError \<and> Suc tries < max_tries \<and> elapsed E (Suc tries) < max_time
          then connect_from E (Suc tries) s'
          else (Inl e, s'))"
  by pat_completeness auto
termination
  by (relation "measure (\<lambda>(E, tries, s). max_tries - tries)") auto

definition connect :: "env \<Rightarrow> unit prog" where
  "connect E = connect_from E 0"

definition disconnected_event :: "env \<Rightarrow> unit prog" where
  "disconnected_event E =
     bnd (logging (LogDebug ''disconnected_event'')) (\<lambda>_. connect E)"

text \<open>
  What the properties of \<^verbatim>\<open>connect\<close> speak of: the catalog store answers (its three calls in
  the body do not raise); the number of \<^verbatim>\<open>self.client.connect()\<close> calls between two sessions;
  and a sequence of calls in which every \<^verbatim>\<open>self.client.connect()\<close> directly follows a write of
  the empty \<^verbatim>\<open>'portfolio'\<close> universe that returned.
\<close>

definition catalog_available :: "env \<Rightarrow> bool" where
  "catalog_available E =
     (raises E UniverseAccessorGetAll = None \<and> raises E UniverseAccessorGet = None
      \<and> raises E (UniverseAccessorUpdate []) = None)"

definition connection_attempts :: "Trader \<Rightarrow> Trader \<Rightarrow> nat" where
  "connection_attempts s s' = count_list (calls s') ClientConnect - count_list (calls s) ClientConnect"

definition cleared_before_connect :: "env \<Rightarrow> call list \<Rightarrow> bool" where
  "cleared_before_connect E cs =
     (\<forall>i < length cs. cs ! i = ClientConnect \<longrightarrow>
        0 < i \<and> cs ! (i - 1) = UniverseAccessorUpdate [] \<and> raises E (UniverseAccessorUpdate []) = None)"

section \<open>Orders\<close>

text \<open>
  \<^verbatim>\<open>if order and order.clientId == self.client.client_id_counter\<close>: an \<^verbatim>\<open>Order\<close> object is
  truthy, so \<^verbatim>\<open>order\<close> is false exactly for \<^verbatim>\<open>None\<close>. The result is \<^verbatim>\<open>Optional[Trade]\<close>.
\<close>

definition cancel_order :: "env \<Rightarrow> int \<Rightarrow> (Trade option) prog" where
  "cancel_order E order_id s =
     (let ord = get_order (book s) order_id
      in if ord \<noteq> None \<and> clientId (the ord) = client_id_counter s then
           bnd (logging (LogInfo ''cancelling order {}'')) (\<lambda>_.
           bnd (perform E (IbCancelOrder (the ord))) (\<lambda>_.
           ret (cancelled E (the ord)))) s
         else
           bnd (logging (LogError
                  ''either order does not exist, or originating client_id is different: {} {}'')) (\<lambda>_.
           ret None) s)"

text \<open>\<^verbatim>\<open>LimitOrder(action, totalQuantity, lmtPrice)\<close>: a new order has no id and no client yet.\<close>

definition LimitOrder :: "string \<Rightarrow> int \<Rightarrow> rat \<Rightarrow> Order" where
  "LimitOrder a q p = \<lparr>orderId = 0, clientId = 0, action = a, totalQuantity = q, lmtPrice = p\<rparr>"

definition temp_place_order :: "env \<Rightarrow> Contract \<Rightarrow> Order \<Rightarrow> trade_observer prog" where
  "temp_place_order E c ord =
     bnd (perform E (SubscribePlaceOrder c ord)) (\<lambda>_. ret (TradeObserver c ord))"

text \<open>Lines 286 to 292 of \<^verbatim>\<open>temp_handle_order\<close>: the quantity.\<close>

definition order_quantity :: "rat \<Rightarrow> rat \<Rightarrow> exn + int" where
  "order_quantity equity_amount latest_bid =
     (if latest_bid = 0 then Inl ZeroDivisionError
      else
        let quantity = equity_amount / latest_bid;
            quantity = (if quantity < 1 \<and> quantity > 0 then 1 else quantity)
        in Inr (py_round quantity))"

text \<open>Lines 298 to 304: the limit price.\<close>

definition order_limit_price :: "bool \<Rightarrow> Action \<Rightarrow> rat \<Rightarrow> rat" where
  "order_limit_price debug act latest_bid =
     (let limit_price = latest_bid;
          limit_price =
            (if debug \<and> act = BUY then py_round_ndigits (limit_price * (9 / 10) * (9 / 10)) 2
             else limit_price);
          limit_price =
            (if debug \<and> act = SELL then py_round_ndigits (limit_price * (11 / 10)) 2
             else limit_price)
      in limit_price)"

text \<open>
  \<^verbatim>\<open>temp_handle_order\<close>. The first component of the result is \<open>None\<close> when the coroutine is
  never resumed from \<^verbatim>\<open>wait_value()\<close>.
\<close>

definition temp_handle_order ::
  "env \<Rightarrow> Contract \<Rightarrow> Action \<Rightarrow> rat \<Rightarrow> bool \<Rightarrow> bool \<Rightarrow> Trader \<Rightarrow> (exn + trade_observer) option \<times> Trader" where
  "temp_handle_order E c act equity_amount delayed debug s =
     (case bnd (perform E (SubscribeContract c)) (\<lambda>_. perform E TicksSubscribeAsync) s of
        (Inl e, s1) \<Rightarrow> (Some (Inl e), s1)
      | (Inr _, s1) \<Rightarrow>
          (let xs = take_stream 1 (ticks E c)
           in case wait_value (delivered E) xs of
                None \<Rightarrow> (None, s1)
              | Some (Inl e) \<Rightarrow> (Some (Inl e), s1)
              | Some (Inr latest_tick) \<Rightarrow>
                  (case order_quantity equity_amount (bid latest_tick) of
                     Inl e \<Rightarrow> (Some (Inl e), s1)
                   | Inr quantity_int \<Rightarrow>
                       (let limit_price = order_limit_price debug act (bid latest_tick);
                            ord = LimitOrder (str_Action act) quantity_int limit_price;
                            (r, s2) =
                              bnd (logging (LogDebug ''temp_handle_order assessed quantity: {} on bid: {}'')) (\<lambda>_.
                              temp_place_order E c ord) s1
                        in (Some r, s2)))))"

section \<open>Example sessions\<close>

text \<open>
  Concrete collaborators and sessions, to run the model on. The gateway \<open>gw\<close> answers every
  contract with its own details, accepts every connection and raises nothing.
\<close>

definition aapl :: Contract where
  "aapl = \<lparr>conId = 265598, symbol = ''AAPL'', exchange = ''SMART''\<rparr>"

definition aapl_nasdaq :: Contract where
  "aapl_nasdaq = \<lparr>conId = 265598, symbol = ''AAPL'', exchange = ''NASDAQ''\<rparr>"

definition msft :: Contract where
  "msft = \<lparr>conId = 272093, symbol = ''MSFT'', exchange = ''SMART''\<rparr>"

definition holding :: "Contract \<Rightarrow> PortfolioItem" where
  "holding c = \<lparr>contract = c, position = 10, account = ''DU1''\<rparr>"

definition details_of :: "Contract \<Rightarrow> ContractDetails list" where
  "details_of c = [\<lparr>cd_contract = c, longName = symbol c\<rparr>]"

definition definition_of :: "ContractDetails \<Rightarrow> SecurityDefinition" where
  "definition_of d =
     \<lparr>sd_conId = conId (cd_contract d), sd_symbol = symbol (cd_contract d), sd_longName = longName d\<rparr>"

definition buy_order :: "int \<Rightarrow> int \<Rightarrow> Order" where
  "buy_order oid cid = \<lparr>orderId = oid, clientId = cid, action = ''BUY'', totalQuantity = 5, lmtPrice = 100\<rparr>"

definition gw :: env where
  "gw = \<lparr>raises = (\<lambda>c. None), isConnected = True,
         ib_portfolio = [holding aapl, holding msft, holding aapl_nasdaq],
         contract_details = details_of, from_contract_details = definition_of,
         open_orders = [\<lparr>trade_contract = aapl, order = buy_order 7 1\<rparr>],
         cancelled = (\<lambda>ord. Some \<lparr>trade_contract = aapl, order = ord\<rparr>),
         ticks = (\<lambda>c. [OnNext \<lparr>tick_contract = c, bid = 100\<rparr>, OnNext \<lparr>tick_contract = c, bid = 101\<rparr>]),
         delivered = 0, connect_outcome = (\<lambda>k. None), elapsed = (\<lambda>k. k), new_client_id = 1\<rparr>"

text \<open>The session as \<^verbatim>\<open>__init__\<close> and a first \<^verbatim>\<open>connect\<close> leave it, and one that holds an order.\<close>

definition fresh :: Trader where
  "fresh = \<lparr>client_id_counter = 1, market_data = 3, contract_subscriptions = [],
            market_data_subscriptions = [], book = \<lparr>orders = [], subscribed = 0\<rparr>,
            portfolio = \<lparr>positions = [], portfolio_items = []\<rparr>, portfolio_universe = [],
            positions_observers = 0, portfolio_observers = 0, calls = [], logs = []\<rparr>"

definition with_order :: "Order \<Rightarrow> Trader" where
  "with_order ord = fresh\<lparr>book := \<lparr>orders = [(orderId ord, ord)], subscribed = 1\<rparr>\<rparr>"

text \<open>
  The session after a start against \<open>gw\<close>: \<^verbatim>\<open>connect\<close>, then the connected event with its
  reconciliation of the gateway's portfolio.
\<close>

definition started :: Trader where
  "started = snd (connected_event gw (snd (connect gw fresh)))"

section \<open>Running programs\<close>

lemma bnd_ret: "bnd (ret x) f s = f x s"
  by (simp add: bnd_def ret_def)

lemma bnd_modify: "bnd (modify g) f s = f () (g s)"
  by (simp add: bnd_def modify_def)

lemma bnd_logging: "bnd (logging l) f s = f () (s\<lparr>logs := logs s @ [l]\<rparr>)"
  by (simp add: bnd_def logging_def)

lemma bnd_perform:
  "bnd (perform E c) f s =
     (case raises E c of
        Some e \<Rightarrow> (Inl e, s\<lparr>calls := calls s @ [c]\<rparr>)
      | None \<Rightarrow> f () (s\<lparr>calls := calls s @ [c]\<rparr>))"
  by (simp add: bnd_def perform_def Let_def split: option.splits)

lemma grows_bnd:
  assumes "\<And>s. prefix (calls s) (calls (snd (m s)))"
    and "\<And>x s. prefix (calls s) (calls (snd (f x s)))"
  shows "prefix (calls s) (calls (snd (bnd m f s)))"
proof (cases "m s")
  case (Pair r s')
  show ?thesis
  proof (cases r)
    case (Inl e)
    with Pair assms(1) [of s] show ?thesis by (simp add: bnd_def)
  next
    case (Inr x)
    with Pair have "bnd m f s = f x s'" by (simp add: bnd_def)
    moreover from Pair assms(1) [of s] have "prefix (calls s) (calls s')" by simp
    ultimately show ?thesis using assms(2) [of s' x] by (metis prefix_order.trans)
  qed
qed

lemma grows_perform: "prefix (calls s) (calls (snd (perform E c s)))"
  by (simp add: perform_def Let_def split: option.splits)

lemma grows_logging: "prefix (calls s) (calls (snd (logging l s)))"
  by (simp add: logging_def)

lemma grows_ret: "prefix (calls s) (calls (snd (ret x s)))"
  by (simp add: ret_def)

lemma grows_modify: "(\<And>s. calls (g s) = calls s) \<Longrightarrow> prefix (calls s) (calls (snd (modify g s)))"
  by (simp add: modify_def)

lemma grows_subscribe_market_data:
  "prefix (calls s) (calls (snd (subscribe_market_data E u p s)))"
  unfolding subscribe_market_data_def
  by (auto split: sum.splits bool.splits simp: Let_def
        intro!: grows_bnd grows_perform grows_logging grows_modify)

lemma grows_update_portfolio_universe:
  "prefix (calls s) (calls (snd (update_portfolio_universe E p s)))"
  unfolding update_portfolio_universe_def
  by (rule grows_bnd, rule grows_perform)
     (auto split: sum.splits bool.splits simp: Let_def
        intro!: grows_bnd grows_perform grows_logging grows_modify grows_subscribe_market_data)

lemma grows_update_portfolio:
  "prefix (calls s) (calls (snd (update_portfolio E p s)))"
  unfolding update_portfolio_def
  by (intro grows_bnd grows_logging grows_modify grows_update_portfolio_universe) simp

lemma grows_observer_asend:
  assumes "\<And>ex s. prefix (calls s) (calls (snd (athrow ex s)))"
    and "\<And>s. prefix (calls s) (calls (snd (asend v s)))"
  shows "prefix (calls s) (calls (snd (observer_asend athrow asend v s)))"
proof (cases "asend v s")
  case (Pair r s')
  with assms(2) [of s] have p: "prefix (calls s) (calls s')" by simp
  show ?thesis
  proof (cases r)
    case (Inl ex)
    with Pair have "observer_asend athrow asend v s = athrow ex s'"
      by (simp add: observer_asend_def)
    with p assms(1) [of s' ex] show ?thesis by (metis prefix_order.trans)
  next
    case (Inr u)
    with Pair p show ?thesis by (simp add: observer_asend_def)
  qed
qed

lemma grows_repeat:
  assumes "\<And>s. prefix (calls s) (calls (snd (m s)))"
  shows "prefix (calls s) (calls (snd (repeat n m s)))"
proof (induction n arbitrary: s)
  case 0
  show ?case by (simp add: ret_def)
next
  case (Suc n)
  show ?case by (simp, rule grows_bnd) (rule assms, rule Suc.IH)
qed

lemma grows_asend_portfolio:
  assumes "\<And>ex s. prefix (calls s) (calls (snd (athrow ex s)))"
  shows "prefix (calls s) (calls (snd (asend_portfolio athrow E ps s)))"
proof (induction ps arbitrary: s)
  case Nil
  show ?case by (simp add: ret_def)
next
  case (Cons p ps)
  have "\<And>s. prefix (calls s) (calls (snd (portfolio_subject_asend athrow E p s)))"
    unfolding portfolio_subject_asend_def
    by (intro grows_repeat grows_observer_asend assms grows_update_portfolio)
  then show ?case using Cons.IH by (simp, intro grows_bnd)
qed

lemma grows_replay_orders:
  "prefix (calls s) (calls (snd (replay_orders E ts s)))"
proof (induction ts arbitrary: s)
  case Nil
  show ?case by (simp add: ret_def)
next
  case (Cons t ts)
  show ?case unfolding replay_orders.simps
    by (intro grows_bnd grows_perform grows_modify Cons.IH) simp
qed

lemma grows_handle_subscription_exception:
  "prefix (calls s) (calls (snd (handle_subscription_exception ex s)))"
  by (simp add: handle_subscription_exception_def bnd_logging ret_def)

lemma grows_after_perform:
  assumes "\<And>s. prefix (calls s) (calls (snd (f () s)))"
  shows "\<exists>t. calls (snd (bnd (perform E c) f s)) =
           (if raises E c \<noteq> None then calls s @ [c] else calls s @ c # t)"
proof (cases "raises E c")
  case None
  from assms [of "s\<lparr>calls := calls s @ [c]\<rparr>"]
  obtain t where "calls (snd (f () (s\<lparr>calls := calls s @ [c]\<rparr>))) = (calls s @ [c]) @ t"
    by (auto simp: prefix_def)
  with None show ?thesis by (simp add: bnd_perform)
next
  case (Some e)
  then show ?thesis by (simp add: bnd_perform)
qed

lemma setup_calls:
  assumes "\<And>ex s. prefix (calls s) (calls (snd (athrow ex s)))"
  shows "\<exists>t. calls (snd (setup_subscriptions_with athrow E s)) =
           (if \<not> is_ib_connected E then calls s
            else if raises E BookSubscribeToEventkitEvent \<noteq> None
              then calls s @ [BookSubscribeToEventkitEvent]
            else calls s @ BookSubscribeToEventkitEvent # t)"
proof (cases "is_ib_connected E")
  case False
  then show ?thesis by (simp add: setup_subscriptions_with_def)
next
  case True
  show ?thesis
    unfolding setup_subscriptions_with_def Let_def
    apply (simp only: True simp_thms if_False)
    apply (rule grows_after_perform)
    apply (intro grows_bnd grows_perform grows_modify grows_ret grows_replay_orders
        grows_asend_portfolio assms)
    by simp_all
qed

section \<open>Properties of cancel\_order\<close>

text \<open>
  C3. \<^verbatim>\<open>cancel_order(order_id)\<close> returns a trade only when the Book holds an order under that id
  whose \<^verbatim>\<open>clientId\<close> is the session's client id, and then \<^verbatim>\<open>cancelOrder\<close> is the one call it
  makes. In every other case (no such order, or another owner) it returns \<^verbatim>\<open>None\<close> after
  logging the error "either order does not exist, or originating client_id is different",
  and nothing but the log changes: no call leaves the class, so \<^verbatim>\<open>cancelOrder\<close> is not invoked.
\<close>

theorem cancel_order_ownership:
  "(\<forall>t s'. cancel_order E order_id s = (Inr (Some t), s') \<longrightarrow>
      (\<exists>ord. get_order (book s) order_id = Some ord \<and> clientId ord = client_id_counter s
         \<and> calls s' = calls s @ [IbCancelOrder ord]))
   \<and> ((\<nexists>ord. get_order (book s) order_id = Some ord \<and> clientId ord = client_id_counter s) \<longrightarrow>
        cancel_order E order_id s =
          (Inr None,
           s\<lparr>logs := logs s @
             [LogError ''either order does not exist, or originating client_id is different: {} {}'']\<rparr>))"
  by (auto simp: cancel_order_def logging_def bnd_def ret_def perform_def Let_def
           split: option.splits if_splits)

theorem cancel_order_ownership_witness:
  "cancel_order gw 7 (with_order (buy_order 7 1)) =
     (Inr (Some \<lparr>trade_contract = aapl, order = buy_order 7 1\<rparr>),
      (with_order (buy_order 7 1))
        \<lparr>calls := [IbCancelOrder (buy_order 7 1)], logs := [LogInfo ''cancelling order {}'']\<rparr>)
   \<and> (\<exists>ord. get_order (book (with_order (buy_order 7 1))) 7 = Some ord
         \<and> clientId ord = client_id_counter (with_order (buy_order 7 1)))
   \<and> (\<nexists>ord. get_order (book (with_order (buy_order 7 2))) 7 = Some ord
         \<and> clientId ord = client_id_counter (with_order (buy_order 7 2)))
   \<and> cancel_order gw 7 (with_order (buy_order 7 2)) =
       (Inr None,
        (with_order (buy_order 7 2))
          \<lparr>logs := [LogError ''either order does not exist, or originating client_id is different: {} {}'']\<rparr>)"
proof -
  have own: "cancel_order gw 7 (with_order (buy_order 7 1)) =
     (Inr (Some \<lparr>trade_contract = aapl, order = buy_order 7 1\<rparr>),
      (with_order (buy_order 7 1))
        \<lparr>calls := [IbCancelOrder (buy_order 7 1)], logs := [LogInfo ''cancelling order {}'']\<rparr>)"
    by (simp add: cancel_order_def get_order_def with_order_def fresh_def buy_order_def gw_def
          logging_def bnd_def ret_def perform_def)
  have other: "\<nexists>ord. get_order (book (with_order (buy_order 7 2))) 7 = Some ord
         \<and> clientId ord = client_id_counter (with_order (buy_order 7 2))"
    by (simp add: get_order_def with_order_def fresh_def buy_order_def)
  have logs: "logs (with_order (buy_order 7 2)) = []"
    by (simp add: with_order_def fresh_def)
  from cancel_order_ownership [of gw 7 "with_order (buy_order 7 1)"] own
  have "\<exists>ord. get_order (book (with_order (buy_order 7 1))) 7 = Some ord
         \<and> clientId ord = client_id_counter (with_order (buy_order 7 1))"
    by blast
  moreover from cancel_order_ownership [of gw 7 "with_order (buy_order 7 2)"] other logs
  have "cancel_order gw 7 (with_order (buy_order 7 2)) =
       (Inr None,
        (with_order (buy_order 7 2))
          \<lparr>logs := [LogError ''either order does not exist, or originating client_id is different: {} {}'']\<rparr>)"
    by simp
  ultimately show ?thesis using own other by blast
qed

section \<open>Properties of setup\_subscriptions\<close>

text \<open>
  C10. When the gateway link is not connected, \<^verbatim>\<open>setup_subscriptions\<close> raises \<^verbatim>\<open>ConnectionError\<close>
  and the session is exactly as before: no call has left the class (no stream subscription
  attached, no snapshot replayed), and the Book, the Portfolio, the universe and the
  subscription maps are unchanged.
\<close>

theorem setup_subscriptions_not_connected:
  "\<not> is_ib_connected E \<Longrightarrow> setup_subscriptions E s = (Inl ConnectionError, s)"
  by (simp add: setup_subscriptions_def setup_subscriptions_with_def)

theorem setup_subscriptions_not_connected_witness:
  "\<not> is_ib_connected (gw\<lparr>isConnected := False\<rparr>)
   \<and> setup_subscriptions (gw\<lparr>isConnected := False\<rparr>) fresh = (Inl ConnectionError, fresh)"
  using setup_subscriptions_not_connected [of "gw\<lparr>isConnected := False\<rparr>" fresh]
  by (simp add: is_ib_connected_def)

text \<open>
  C2. In every run of \<^verbatim>\<open>setup_subscriptions\<close>, whatever the collaborators answer or raise: if the
  open-orders snapshot is fetched (\<^verbatim>\<open>reqAllOpenOrdersAsync\<close>) or a trade is replayed into the Book
  (\<^verbatim>\<open>book.asend\<close>) as the \<open>i\<close>-th call of the run, then the first call of the run was the Book's
  subscription to the order events, it came strictly earlier, and it returned without
  raising.
\<close>

theorem replay_after_attachment:
  assumes "calls (snd (setup_subscriptions E s)) = calls s @ new"
    and "i < length new"
    and "new ! i = ReqAllOpenOrdersAsync \<or> new ! i = BookAsend t"
  shows "0 < i \<and> new ! 0 = BookSubscribeToEventkitEvent
         \<and> raises E BookSubscribeToEventkitEvent = None"
proof -
  from setup_calls [of handle_subscription_exception E s, OF grows_handle_subscription_exception]
  obtain u where u: "calls (snd (setup_subscriptions E s)) =
           (if \<not> is_ib_connected E then calls s
            else if raises E BookSubscribeToEventkitEvent \<noteq> None
              then calls s @ [BookSubscribeToEventkitEvent]
            else calls s @ BookSubscribeToEventkitEvent # u)"
    unfolding setup_subscriptions_def by blast
  show ?thesis
  proof (cases "is_ib_connected E \<and> raises E BookSubscribeToEventkitEvent = None")
    case True
    with u assms(1) have new: "new = BookSubscribeToEventkitEvent # u" by simp
    with assms(3) have "i \<noteq> 0" by (cases i) auto
    with new True show ?thesis by simp
  next
    case False
    with u assms(1) have "new = [] \<or> new = [BookSubscribeToEventkitEvent]"
      by (auto split: if_splits)
    with assms(2,3) show ?thesis by auto
  qed
qed

theorem replay_after_attachment_witness:
  "calls (snd (setup_subscriptions (gw\<lparr>ib_portfolio := []\<rparr>) fresh)) =
     calls fresh @
       [BookSubscribeToEventkitEvent, SubscribePositions, PositionsSubscribeAsync,
        SubscribePortfolio, PortfolioSubscribeAsync, IbPortfolio, ReqMarketDataType 3,
        ReqAllOpenOrdersAsync, BookAsend \<lparr>trade_contract = aapl, order = buy_order 7 1\<rparr>]
   \<and> (0::nat) < 8
   \<and> raises (gw\<lparr>ib_portfolio := []\<rparr>) BookSubscribeToEventkitEvent = None"
proof -
  let ?new = "[BookSubscribeToEventkitEvent, SubscribePositions, PositionsSubscribeAsync,
        SubscribePortfolio, PortfolioSubscribeAsync, IbPortfolio, ReqMarketDataType 3,
        ReqAllOpenOrdersAsync, BookAsend \<lparr>trade_contract = aapl, order = buy_order 7 1\<rparr>]"
  have run: "calls (snd (setup_subscriptions (gw\<lparr>ib_portfolio := []\<rparr>) fresh)) = calls fresh @ ?new"
    by (simp add: setup_subscriptions_def setup_subscriptions_with_def is_ib_connected_def
        gw_def fresh_def bnd_def perform_def modify_def logging_def ret_def)
  have "(8::nat) < length ?new" by simp
  moreover have "?new ! 8 = ReqAllOpenOrdersAsync
      \<or> ?new ! 8 = BookAsend \<lparr>trade_contract = aapl, order = buy_order 7 1\<rparr>" by simp
  ultimately show ?thesis
    using replay_after_attachment [OF run] run by blast
qed

section \<open>Properties of connect\<close>

lemma cleared_append:
  assumes "cleared_before_connect E a" and "cleared_before_connect E b"
  shows "cleared_before_connect E (a @ b)"
  unfolding cleared_before_connect_def
proof (intro allI impI)
  fix i
  assume i: "i < length (a @ b)" and c: "(a @ b) ! i = ClientConnect"
  show "0 < i \<and> (a @ b) ! (i - 1) = UniverseAccessorUpdate []
          \<and> raises E (UniverseAccessorUpdate []) = None"
  proof (cases "i < length a")
    case True
    with c have "a ! i = ClientConnect" by (simp add: nth_append)
    with True assms(1) have "0 < i \<and> a ! (i - 1) = UniverseAccessorUpdate []
          \<and> raises E (UniverseAccessorUpdate []) = None"
      by (simp add: cleared_before_connect_def)
    with True show ?thesis by (auto simp: nth_append)
  next
    case False
    define j where "j = i - length a"
    from False i c have j: "j < length b" "b ! j = ClientConnect"
      by (auto simp: j_def nth_append)
    with assms(2) have b: "0 < j \<and> b ! (j - 1) = UniverseAccessorUpdate []
          \<and> raises E (UniverseAccessorUpdate []) = None"
      by (simp add: cleared_before_connect_def)
    then have "\<not> i - 1 < length a" "i - 1 - length a = j - 1" "0 < i"
      using False by (auto simp: j_def)
    with b show ?thesis by (simp add: nth_append)
  qed
qed

lemma connect_body_run:
  "\<exists>new. calls (snd (connect_body E k s)) = calls s @ new
      \<and> cleared_before_connect E new
      \<and> (portfolio_universe (snd (connect_body E k s)) = []
         \<or> portfolio_universe (snd (connect_body E k s)) = portfolio_universe s
            \<and> ClientConnect \<notin> set new)"
  by (cases "raises E UniverseAccessorGetAll"; cases "raises E UniverseAccessorGet";
      cases "raises E (UniverseAccessorUpdate [])"; cases "connect_outcome E k")
     (auto simp: connect_body_def clear_portfolio_universe_def client_connect_def
        bnd_def perform_def logging_def modify_def cleared_before_connect_def
        nth_Cons' less_Suc_eq)

lemma connect_from_run:
  "\<exists>new. calls (snd (connect_from E tries s)) = calls s @ new
      \<and> cleared_before_connect E new
      \<and> (portfolio_universe (snd (connect_from E tries s)) = []
         \<or> portfolio_universe (snd (connect_from E tries s)) = portfolio_universe s
            \<and> ClientConnect \<notin> set new)"
proof (induction E tries s rule: connect_from.induct)
  case (1 E tries s)
  note IH = "1.IH"
  obtain r s1 where body: "connect_body E (Suc tries) s = (r, s1)"
    by (cases "connect_body E (Suc tries) s")
  from connect_body_run [of E "Suc tries" s] body
  obtain new1 where n1: "calls s1 = calls s @ new1" "cleared_before_connect E new1"
    "portfolio_universe s1 = [] \<or> portfolio_universe s1 = portfolio_universe s \<and> ClientConnect \<notin> set new1"
    by auto
  show ?case
  proof (cases "\<exists>e. r = Inl e \<and> e = ConnectionRefusedError \<and> Suc tries < max_tries
                  \<and> elapsed E (Suc tries) < max_time")
    case False
    with body have "snd (connect_from E tries s) = s1"
      by (subst connect_from.simps) (auto split: sum.splits)
    with n1 show ?thesis by auto
  next
    case True
    then have r: "r = Inl ConnectionRefusedError" by auto
    with body True have eq: "connect_from E tries s = connect_from E (Suc tries) s1"
      by (subst connect_from.simps) simp
    from IH [OF body [symmetric] r] True
    obtain new2 where n2: "calls (snd (connect_from E (Suc tries) s1)) = calls s1 @ new2"
      "cleared_before_connect E new2"
      "portfolio_universe (snd (connect_from E (Suc tries) s1)) = []
         \<or> portfolio_universe (snd (connect_from E (Suc tries) s1)) = portfolio_universe s1
            \<and> ClientConnect \<notin> set new2"
      by auto
    have "calls (snd (connect_from E tries s)) = calls s @ (new1 @ new2)"
      using eq n1(1) n2(1) by simp
    moreover have "cleared_before_connect E (new1 @ new2)"
      using n1(2) n2(2) by (rule cleared_append)
    moreover have "portfolio_universe (snd (connect_from E tries s)) = []
         \<or> portfolio_universe (snd (connect_from E tries s)) = portfolio_universe s
            \<and> ClientConnect \<notin> set (new1 @ new2)"
      using eq n1(3) n2(3) by auto
    ultimately show ?thesis by blast
  qed
qed


lemma disconnected_event_connect:
  "disconnected_event E s = connect E (s\<lparr>logs := logs s @ [LogDebug ''disconnected_event'']\<rparr>)"
  by (simp add: disconnected_event_def bnd_logging)

lemma disconnected_event_gw_calls:
  "calls (snd (disconnected_event gw s)) =
     calls s @ [UniverseAccessorGetAll, UniverseAccessorGet, UniverseAccessorUpdate [], ClientConnect]"
  by (simp add: disconnected_event_def connect_def connect_from.simps [of gw 0] connect_body_def
        clear_portfolio_universe_def client_connect_def bnd_def perform_def logging_def modify_def gw_def)

lemma started_universe:
  "portfolio_universe started =
     [\<lparr>sd_conId = 265598, sd_symbol = ''AAPL'', sd_longName = ''AAPL''\<rparr>,
      \<lparr>sd_conId = 272093, sd_symbol = ''MSFT'', sd_longName = ''MSFT''\<rparr>]"
  by (simp add: started_def connected_event_def setup_subscriptions_def setup_subscriptions_with_def
      is_ib_connected_def connect_def connect_from.simps [of gw 0] connect_body_def clear_portfolio_universe_def
      client_connect_def bnd_def perform_def logging_def modify_def ret_def gw_def fresh_def
      portfolio_subject_asend_def observer_asend_def update_portfolio_def update_portfolio_universe_def
      subscribe_market_data_def handle_subscription_exception_def find_contract_def
      holding_def aapl_def msft_def aapl_nasdaq_def details_of_def definition_of_def add_portfolio_item_def
      book_add_def buy_order_def Let_def)

text \<open>
  C5, as the code has it. On every \<^verbatim>\<open>connect()\<close>, the plain start and the reconnect that
  \<^verbatim>\<open>disconnected_event\<close> makes alike: every call of \<^verbatim>\<open>self.client.connect()\<close> in the run directly
  follows a write of the empty \<^verbatim>\<open>'portfolio'\<close> universe to the store that returned, and when the
  run ends the \<^verbatim>\<open>'portfolio'\<close> universe is empty. The reconciliation starts with the connected
  event, so the universe is cleared and persisted before it begins.
\<close>

theorem connect_clears_portfolio_universe:
  assumes "run = connect E \<or> run = disconnected_event E"
    and "calls (snd (run s)) = calls s @ new"
    and "i < length new"
    and "new ! i = ClientConnect"
  shows "0 < i \<and> new ! (i - 1) = UniverseAccessorUpdate []
         \<and> raises E (UniverseAccessorUpdate []) = None
         \<and> portfolio_universe (snd (run s)) = []"
proof -
  from assms(1) obtain s0 where s0: "run s = connect_from E 0 s0" "calls s0 = calls s"
    by (auto simp: connect_def disconnected_event_connect)
  from connect_from_run [of E 0 s0] s0 assms(2)
  have c: "cleared_before_connect E new"
    and u: "portfolio_universe (snd (run s)) = [] \<or> ClientConnect \<notin> set new"
    by auto
  from assms(3,4) have "ClientConnect \<in> set new" by (metis nth_mem)
  with u have "portfolio_universe (snd (run s)) = []" by simp
  moreover from c assms(3,4) have "0 < i \<and> new ! (i - 1) = UniverseAccessorUpdate []
         \<and> raises E (UniverseAccessorUpdate []) = None"
    by (simp add: cleared_before_connect_def)
  ultimately show ?thesis by simp
qed

theorem connect_clears_portfolio_universe_witness:
  "calls (snd (disconnected_event gw started)) =
     calls started @ [UniverseAccessorGetAll, UniverseAccessorGet, UniverseAccessorUpdate [], ClientConnect]
   \<and> (0::nat) < 3
   \<and> raises gw (UniverseAccessorUpdate []) = None
   \<and> portfolio_universe (snd (disconnected_event gw started)) = []"
proof -
  let ?new = "[UniverseAccessorGetAll, UniverseAccessorGet, UniverseAccessorUpdate [], ClientConnect]"
  have "(3::nat) < length ?new" "?new ! 3 = ClientConnect" by simp_all
  with connect_clears_portfolio_universe [of "disconnected_event gw" gw started ?new 3]
    disconnected_event_gw_calls [of started]
  show ?thesis by simp
qed

text \<open>
  The claim C5 as stated has the \<^verbatim>\<open>'portfolio'\<close> universe kept on a reconnect triggered by a
  disconnected event. In the session \<open>started\<close>, whose universe holds two instruments, the
  disconnected event connects again and leaves the universe empty.
\<close>

theorem reconnect_clears_portfolio_universe:
  "portfolio_universe started =
     [\<lparr>sd_conId = 265598, sd_symbol = ''AAPL'', sd_longName = ''AAPL''\<rparr>,
      \<lparr>sd_conId = 272093, sd_symbol = ''MSFT'', sd_longName = ''MSFT''\<rparr>]
   \<and> portfolio_universe (snd (disconnected_event gw started)) = []
   \<and> ClientConnect \<in> set (calls (snd (disconnected_event gw started)))"
proof -
  have "portfolio_universe (snd (disconnected_event gw s)) = []" for s
    by (simp add: disconnected_event_def connect_def connect_from.simps [of gw 0] connect_body_def
        clear_portfolio_universe_def client_connect_def bnd_def perform_def logging_def modify_def gw_def)
  with started_universe disconnected_event_gw_calls [of started] show ?thesis by simp
qed

lemma connect_body_available:
  assumes "catalog_available E"
  shows "fst (connect_body E k s) = (case connect_outcome E k of None \<Rightarrow> Inr () | Some e \<Rightarrow> Inl e)"
    and "count_list (calls (snd (connect_body E k s))) ClientConnect = Suc (count_list (calls s) ClientConnect)"
  using assms
  by (auto simp: catalog_available_def connect_body_def clear_portfolio_universe_def client_connect_def
        bnd_def perform_def logging_def modify_def Let_def split: option.splits)

lemma connect_from_attempts:
  "catalog_available E \<Longrightarrow> tries < max_tries \<Longrightarrow>
    \<exists>n. tries < n \<and> n \<le> max_tries
      \<and> count_list (calls (snd (connect_from E tries s))) ClientConnect
          = count_list (calls s) ClientConnect + (n - tries)
      \<and> (\<forall>k. tries < k \<and> k < n \<longrightarrow>
            connect_outcome E k = Some ConnectionRefusedError \<and> elapsed E k < max_time)
      \<and> fst (connect_from E tries s) = (case connect_outcome E n of None \<Rightarrow> Inr () | Some e \<Rightarrow> Inl e)
      \<and> (connect_outcome E n = Some ConnectionRefusedError \<longrightarrow> n = max_tries \<or> max_time \<le> elapsed E n)"
proof (induction E tries s rule: connect_from.induct)
  case (1 E tries s)
  note IH = "1.IH"
  note av = "1.prems"(1)
  obtain r s1 where body: "connect_body E (Suc tries) s = (r, s1)"
    by (cases "connect_body E (Suc tries) s")
  from connect_body_available [OF av, of "Suc tries" s] body
  have r: "r = (case connect_outcome E (Suc tries) of None \<Rightarrow> Inr () | Some e \<Rightarrow> Inl e)"
    and c1: "count_list (calls s1) ClientConnect = Suc (count_list (calls s) ClientConnect)"
    by simp_all
  show ?case
  proof (cases "r = Inl ConnectionRefusedError \<and> Suc tries < max_tries
                  \<and> elapsed E (Suc tries) < max_time")
    case False
    with body have eq: "connect_from E tries s = (r, s1)"
      by (subst connect_from.simps) (auto split: sum.splits)
    have "connect_outcome E (Suc tries) = Some ConnectionRefusedError \<longrightarrow>
            Suc tries = max_tries \<or> max_time \<le> elapsed E (Suc tries)"
      using False r "1.prems"(2) by (auto split: option.splits)
    with eq r c1 "1.prems"(2) show ?thesis
      by (intro exI [of _ "Suc tries"]) (auto simp: less_Suc_eq)
  next
    case True
    then have r': "r = Inl ConnectionRefusedError" and lt: "Suc tries < max_tries"
      and el: "elapsed E (Suc tries) < max_time" by auto
    from r r' have out: "connect_outcome E (Suc tries) = Some ConnectionRefusedError"
      by (auto split: option.splits)
    from body True have eq: "connect_from E tries s = connect_from E (Suc tries) s1"
      by (subst connect_from.simps) simp
    from IH [OF body [symmetric] r' _ av lt] True
    obtain n where n: "Suc tries < n" "n \<le> max_tries"
      "count_list (calls (snd (connect_from E (Suc tries) s1))) ClientConnect
          = count_list (calls s1) ClientConnect + (n - Suc tries)"
      "\<forall>k. Suc tries < k \<and> k < n \<longrightarrow>
            connect_outcome E k = Some ConnectionRefusedError \<and> elapsed E k < max_time"
      "fst (connect_from E (Suc tries) s1) = (case connect_outcome E n of None \<Rightarrow> Inr () | Some e \<Rightarrow> Inl e)"
      "connect_outcome E n = Some ConnectionRefusedError \<longrightarrow> n = max_tries \<or> max_time \<le> elapsed E n"
      by auto
    have "\<forall>k. tries < k \<and> k < n \<longrightarrow>
            connect_outcome E k = Some ConnectionRefusedError \<and> elapsed E k < max_time"
    proof (intro allI impI)
      fix k assume "tries < k \<and> k < n"
      then have "k = Suc tries \<or> Suc tries < k \<and> k < n" by auto
      with out el n(4) show "connect_outcome E k = Some ConnectionRefusedError \<and> elapsed E k < max_time"
        by auto
    qed
    with n c1 eq show ?thesis
      by (intro exI [of _ n]) auto
  qed
qed

text \<open>
  C4. With the catalog store answering, \<^verbatim>\<open>connect()\<close> returns after \<open>n\<close> connection attempts,
  \<open>1 \<le> n \<le> 10\<close>. Each attempt before the last ended in \<^verbatim>\<open>ConnectionRefusedError\<close> and began
  before 120 seconds had passed: only a refusal is tried again. The result is that of the last
  attempt, success or its exception, so any other exception reaches the caller from the attempt
  that raised it. A refusal is the result only when a bound is reached: it was attempt number 10,
  or 120 seconds had passed when the attempt began. \<^verbatim>\<open>connect_from\<close> is a total function, so
  \<^verbatim>\<open>connect()\<close> returns whatever the gateway does.
\<close>

theorem connect_retry_bounds:
  assumes "catalog_available E"
  shows "\<exists>n. 1 \<le> n \<and> n \<le> max_tries
      \<and> connection_attempts s (snd (connect E s)) = n
      \<and> (\<forall>k. 1 \<le> k \<and> k < n \<longrightarrow>
            connect_outcome E k = Some ConnectionRefusedError \<and> elapsed E k < max_time)
      \<and> fst (connect E s) = (case connect_outcome E n of None \<Rightarrow> Inr () | Some e \<Rightarrow> Inl e)
      \<and> (connect_outcome E n = Some ConnectionRefusedError \<longrightarrow> n = max_tries \<or> max_time \<le> elapsed E n)"
proof -
  have "0 < max_tries" by (simp add: max_tries_def)
  from connect_from_attempts [OF assms this, of s]
  obtain n where n: "0 < n" "n \<le> max_tries"
      "count_list (calls (snd (connect_from E 0 s))) ClientConnect
          = count_list (calls s) ClientConnect + (n - 0)"
      "\<forall>k. 0 < k \<and> k < n \<longrightarrow>
            connect_outcome E k = Some ConnectionRefusedError \<and> elapsed E k < max_time"
      "fst (connect_from E 0 s) = (case connect_outcome E n of None \<Rightarrow> Inr () | Some e \<Rightarrow> Inl e)"
      "connect_outcome E n = Some ConnectionRefusedError \<longrightarrow> n = max_tries \<or> max_time \<le> elapsed E n"
    by blast
  then show ?thesis
    by (intro exI [of _ n]) (simp add: connect_def connection_attempts_def)
qed

theorem connect_retry_bounds_witness:
  "catalog_available (gw\<lparr>connect_outcome := \<lambda>k. Some ConnectionRefusedError\<rparr>)
   \<and> connection_attempts fresh
        (snd (connect (gw\<lparr>connect_outcome := \<lambda>k. Some ConnectionRefusedError\<rparr>) fresh)) = 10
   \<and> fst (connect (gw\<lparr>connect_outcome := \<lambda>k. Some ConnectionRefusedError\<rparr>) fresh)
       = Inl ConnectionRefusedError
   \<and> catalog_available (gw\<lparr>connect_outcome := \<lambda>k. Some ConnectionError\<rparr>)
   \<and> connection_attempts fresh
        (snd (connect (gw\<lparr>connect_outcome := \<lambda>k. Some ConnectionError\<rparr>) fresh)) = 1
   \<and> fst (connect (gw\<lparr>connect_outcome := \<lambda>k. Some ConnectionError\<rparr>) fresh) = Inl ConnectionError"
proof -
  let ?R = "gw\<lparr>connect_outcome := \<lambda>k. Some ConnectionRefusedError\<rparr>"
  let ?F = "gw\<lparr>connect_outcome := \<lambda>k. Some ConnectionError\<rparr>"
  have avR: "catalog_available ?R" and avF: "catalog_available ?F"
    by (simp_all add: catalog_available_def gw_def)
  from connect_retry_bounds [OF avR, of fresh]
  obtain n where n: "1 \<le> n" "n \<le> max_tries"
    "connection_attempts fresh (snd (connect ?R fresh)) = n"
    "fst (connect ?R fresh) = (case connect_outcome ?R n of None \<Rightarrow> Inr () | Some e \<Rightarrow> Inl e)"
    "connect_outcome ?R n = Some ConnectionRefusedError \<longrightarrow> n = max_tries \<or> max_time \<le> elapsed ?R n"
    by blast
  from n(2,5) have "n = 10" by (auto simp: gw_def max_tries_def max_time_def)
  with n(3,4) have R: "connection_attempts fresh (snd (connect ?R fresh)) = 10"
    "fst (connect ?R fresh) = Inl ConnectionRefusedError" by simp_all
  from connect_retry_bounds [OF avF, of fresh]
  obtain m where m: "1 \<le> m"
    "connection_attempts fresh (snd (connect ?F fresh)) = m"
    "\<forall>k. 1 \<le> k \<and> k < m \<longrightarrow>
            connect_outcome ?F k = Some ConnectionRefusedError \<and> elapsed ?F k < max_time"
    "fst (connect ?F fresh) = (case connect_outcome ?F m of None \<Rightarrow> Inr () | Some e \<Rightarrow> Inl e)"
    by blast
  have "m = 1"
  proof (rule ccontr)
    assume "m \<noteq> 1"
    with m(1) have "1 \<le> (1::nat) \<and> 1 < m" by simp
    with m(3) have "connect_outcome ?F 1 = Some ConnectionRefusedError" by blast
    then show False by simp
  qed
  with m(2,4) have F: "connection_attempts fresh (snd (connect ?F fresh)) = 1"
    "fst (connect ?F fresh) = Inl ConnectionError" by simp_all
  from avR avF R F show ?thesis by simp
qed

end
